theory Spec2Isabelle
  imports Main "HOL-Library.Word"
begin

section \<open>Go strings\<close>

text \<open>
  A Go string is a sequence of bytes, and so is a HOL \<^typ>\<open>string\<close>. The double quote
  and the backslash are written by their codes.
\<close>

abbreviation DQ :: char where "DQ \<equiv> CHR 0x22"
abbreviation BSL :: char where "BSL \<equiv> CHR 0x5C"

text \<open>
  \<^verbatim>\<open>strings.ReplaceAll(s, old, new)\<close>: the non-overlapping occurrences of \<open>old\<close>, from
  the left, are replaced by \<open>new\<close>. The program only calls it with the one-byte pattern
  \<^verbatim>\<open>`"`\<close>; for the empty pattern (where Go inserts \<open>new\<close> around every rune) this
  function returns \<open>s\<close>.
\<close>

function ReplaceAll :: "string \<Rightarrow> string \<Rightarrow> string \<Rightarrow> string" where
  "ReplaceAll s old new =
     (if old = [] \<or> s = [] then s
      else if take (length old) s = old
           then new @ ReplaceAll (drop (length old) s) old new
           else hd s # ReplaceAll (tl s) old new)"
  by pat_completeness auto
termination
  by (relation "measure (\<lambda>(s, old, new). length s)") (auto simp: neq_Nil_conv)

declare ReplaceAll.simps [simp del]

text \<open>\<^verbatim>\<open>strings.Join(elems, sep)\<close>.\<close>

fun Join :: "string list \<Rightarrow> string \<Rightarrow> string" where
  "Join [] sep = []"
| "Join [x] sep = x"
| "Join (x # y # zs) sep = x @ sep @ Join (y # zs) sep"

section \<open>Search sanitization (internal/store/sqlite.go)\<close>

text \<open>
  \<^verbatim>\<open>
  func sanitizeFTSQuery(query string) string {
      query = strings.ReplaceAll(query, `"`, `""`)
      return `"` + query + `"`
  }
  \<close>
\<close>

definition sanitizeFTSQuery :: "string \<Rightarrow> string" where
  "sanitizeFTSQuery query = [DQ] @ ReplaceAll query [DQ] [DQ, DQ] @ [DQ]"

text \<open>
  The quoting rule of the FTS5 query language that the sanitizer targets: a string
  literal opens with a double quote and runs to the first double quote that is not
  doubled; a doubled quote stands for one quote character. \<open>fts5_string_body\<close> reads the
  text after the opening quote and returns the literal's content and what follows the
  closing quote, or \<open>None\<close> when the literal is not closed. \<open>fts5_string\<close> reads a whole
  literal.
\<close>

fun fts5_string_body :: "string \<Rightarrow> (string \<times> string) option" where
  "fts5_string_body [] = None"
| "fts5_string_body [c] = (if c = DQ then Some ([], []) else None)"
| "fts5_string_body (c # d # cs) =
     (if c = DQ then
        (if d = DQ then map_option (\<lambda>(body, rest). (DQ # body, rest)) (fts5_string_body cs)
         else Some ([], d # cs))
      else map_option (\<lambda>(body, rest). (c # body, rest)) (fts5_string_body (d # cs)))"

definition fts5_string :: "string \<Rightarrow> (string \<times> string) option" where
  "fts5_string s = (case s of [] \<Rightarrow> None | c # cs \<Rightarrow> if c = DQ then fts5_string_body cs else None)"

section \<open>The database and its environment\<close>

text \<open>
  Instants are integers (nanoseconds on the time line); a \<^verbatim>\<open>time.Duration\<close> is a signed
  64-bit count of nanoseconds, so that Go's negation and its wrap-around are the word's.
  \<^verbatim>\<open>t.Add(d)\<close> moves an instant by the signed value of the duration.
\<close>

type_synonym time = int
type_synonym Duration = "64 word"

definition time_Add :: "time \<Rightarrow> Duration \<Rightarrow> time" where
  "time_Add t d = t + sint d"

text \<open>
  The rows of the three tables of \<^verbatim>\<open>migrate()\<close>, with the values as \<^verbatim>\<open>rows.Scan\<close>
  hands them to the program. The \<open>tags\<close> column of a fact is text (the JSON array);
  \<open>read_at\<close> of a message may be NULL. The Go structs \<^verbatim>\<open>Instance\<close> and \<^verbatim>\<open>Message\<close>
  have the fields of their rows and are represented by them.
\<close>

record fact_row =
  col_id :: int
  col_content :: string
  col_tags :: string
  col_source_dir :: string
  col_created_at :: time
  col_updated_at :: time

record Fact =
  ID :: int
  Content :: string
  Tags :: "string list"
  SourceDir :: string
  CreatedAt :: time
  UpdatedAt :: time

record Instance =
  inst_ID :: string
  inst_PID :: int
  inst_Directory :: string
  inst_StartedAt :: time
  inst_LastHeartbeat :: time

record Message =
  msg_ID :: int
  msg_FromInstance :: string
  msg_ToInstance :: string
  msg_Content :: string
  msg_CreatedAt :: time
  msg_ReadAt :: "time option"

text \<open>
  The state the store's operations run in: the tables in insertion order, the two
  AUTOINCREMENT counters, and the two things outside the program that every operation
  reads. \<open>clock\<close> gives the value of the \<open>n\<close>-th call of \<^verbatim>\<open>time.Now()\<close>. \<open>faults\<close>
  decides the coming statements: its head is the error that the next statement
  (\<^verbatim>\<open>Exec\<close>, \<^verbatim>\<open>Query\<close> with its \<^verbatim>\<open>Scan\<close>s and \<^verbatim>\<open>rows.Err\<close>) returns, \<open>None\<close> for
  success; an exhausted list means that the statements succeed. A statement that fails
  changes no table.
\<close>

record world =
  facts :: "fact_row list"
  facts_seq :: int
  instances :: "Instance list"
  messages :: "Message list"
  messages_seq :: int
  faults :: "string option list"
  clock :: "nat \<Rightarrow> time"
  ticks :: nat

definition time_Now :: "world \<Rightarrow> time \<times> world" where
  "time_Now w = (clock w (ticks w), w\<lparr>ticks := Suc (ticks w)\<rparr>)"

definition db_call :: "world \<Rightarrow> string option \<times> world" where
  "db_call w = (case faults w of [] \<Rightarrow> (None, w) | f # fs \<Rightarrow> (f, w\<lparr>faults := fs\<rparr>))"

text \<open>
  What the program takes from libraries and cannot be read off its source: the FTS5
  engine's decision whether a row's content matches a query text, and
  \<^verbatim>\<open>json.Unmarshal\<close> into a \<^verbatim>\<open>[]string\<close> (\<open>None\<close> when it returns an error). Every
  theorem holds for all of them.
\<close>

record libs =
  fts5_match :: "string \<Rightarrow> string \<Rightarrow> bool"
  json_Unmarshal_tags :: "string \<Rightarrow> string list option"

subsection \<open>\<^verbatim>\<open>json.Marshal\<close> of a \<^verbatim>\<open>[]string\<close>\<close>

text \<open>
  The encoder of \<^verbatim>\<open>encoding/json\<close> with its default HTML escaping: the quote and the
  backslash get a backslash, newline, carriage return and tab their letter, the other
  bytes below 0x20 and \<^verbatim>\<open><\<close>, \<^verbatim>\<open>>\<close>, \<^verbatim>\<open>&\<close> a \<^verbatim>\<open>\u00XX\<close> escape; the elements are
  separated by commas with no space. Bytes from 0x80 are copied, which is what the
  encoder does on well-formed UTF-8 other than U+2028 and U+2029 (ill-formed bytes, which
  it replaces, are outside this model; Go from 1.22 also writes \<^verbatim>\<open>\b\<close> and \<^verbatim>\<open>\f\<close>).
\<close>

definition hex_digit :: "nat \<Rightarrow> char" where
  "hex_digit n = ''0123456789abcdef'' ! (n mod 16)"

definition json_escape_byte :: "char \<Rightarrow> string" where
  "json_escape_byte c =
     (let n = (of_char c :: nat) in
      if c = DQ then [BSL, DQ]
      else if c = BSL then [BSL, BSL]
      else if c = CHR 0x0A then [BSL, CHR ''n'']
      else if c = CHR 0x0D then [BSL, CHR ''r'']
      else if c = CHR 0x09 then [BSL, CHR ''t'']
      else if n < 0x20 \<or> c = CHR ''<'' \<or> c = CHR ''>'' \<or> c = CHR ''&''
           then [BSL, CHR ''u'', CHR ''0'', CHR ''0'', hex_digit (n div 16), hex_digit n]
      else [c])"

definition json_string :: "string \<Rightarrow> string" where
  "json_string s = [DQ] @ concat (map json_escape_byte s) @ [DQ]"

definition json_Marshal_tags :: "string list \<Rightarrow> string" where
  "json_Marshal_tags tags = ''['' @ Join (map json_string tags) '','' @ '']''"

subsection \<open>SQLite's \<^verbatim>\<open>LIKE\<close>\<close>

text \<open>
  \<^verbatim>\<open>text LIKE pattern\<close> as SQLite evaluates it by default (no ESCAPE clause,
  \<^verbatim>\<open>case_sensitive_like\<close> off): \<^verbatim>\<open>%\<close> matches any run of characters, \<^verbatim>\<open>_\<close> any one
  character, and another character matches itself up to the case of the ASCII letters.
  The model works on bytes, which is exact on ASCII text.
\<close>

definition sqlite3Tolower :: "char \<Rightarrow> char" where
  "sqlite3Tolower c =
     (case map_of (zip ''ABCDEFGHIJKLMNOPQRSTUVWXYZ'' ''abcdefghijklmnopqrstuvwxyz'') c of
        Some l \<Rightarrow> l
      | None \<Rightarrow> c)"

fun sqlite_like :: "string \<Rightarrow> string \<Rightarrow> bool" where
  "sqlite_like [] t = (t = [])"
| "sqlite_like (p # ps) [] = (p = CHR ''%'' \<and> sqlite_like ps [])"
| "sqlite_like (p # ps) (c # cs) =
     (if p = CHR ''%'' then sqlite_like ps (c # cs) \<or> sqlite_like (p # ps) cs
      else (p = CHR ''_'' \<or> sqlite3Tolower p = sqlite3Tolower c) \<and> sqlite_like ps cs)"

section \<open>Facts (internal/store/sqlite.go)\<close>

definition MaxLimit :: int where "MaxLimit = 1000"
definition DefaultLimit :: int where "DefaultLimit = 100"

text \<open>
  The id an \<^verbatim>\<open>INTEGER PRIMARY KEY AUTOINCREMENT\<close> column gives a new row: one more than
  the largest id the table ever held.
\<close>

definition next_id :: "int \<Rightarrow> int list \<Rightarrow> int" where
  "next_id seq ids = fold max ids seq + 1"

text \<open>
  \<^verbatim>\<open>AddFact\<close>: a nil tag slice becomes the empty one (both are \<open>[]\<close> here), the tags are
  marshalled, the clock is read, and the row is inserted with both timestamps equal.
\<close>

definition AddFact :: "string \<Rightarrow> string list \<Rightarrow> string \<Rightarrow> world \<Rightarrow> (string + Fact) \<times> world" where
  "AddFact content tags sourceDir w =
     (let tagsJSON = json_Marshal_tags tags;
          (now, w1) = time_Now w;
          (err, w2) = db_call w1
      in case err of
           Some e \<Rightarrow> (Inl e, w2)
         | None \<Rightarrow>
             (let i = next_id (facts_seq w2) (map col_id (facts w2)) in
              (Inr \<lparr>ID = i, Content = content, Tags = tags, SourceDir = sourceDir,
                    CreatedAt = now, UpdatedAt = now\<rparr>,
               w2\<lparr>facts := facts w2 @
                      [\<lparr>col_id = i, col_content = content, col_tags = tagsJSON,
                        col_source_dir = sourceDir, col_created_at = now, col_updated_at = now\<rparr>],
                   facts_seq := i\<rparr>)))"

text \<open>
  The statement \<^verbatim>\<open>GetFacts\<close> builds, as the engine receives it. \<open>q_match\<close> is the
  argument bound to \<^verbatim>\<open>fts.content MATCH ?\<close>, present when the query text is not empty;
  \<open>q_conds\<close> are the conditions joined by \<^verbatim>\<open>AND\<close>, each with the argument bound to its
  \<^verbatim>\<open>?\<close> (\<^verbatim>\<open>f.source_dir = ?\<close> and \<^verbatim>\<open>f.tags LIKE ?\<close>); \<open>q_limit\<close> is the number printed
  after \<^verbatim>\<open>LIMIT\<close>.
\<close>

datatype cond = SourceDirEq string | TagsLike string

record facts_query =
  q_match :: "string option"
  q_conds :: "cond list"
  q_limit :: int

definition tag_pattern :: "string \<Rightarrow> string" where
  "tag_pattern tag = ''%'' @ [DQ] @ ReplaceAll tag [DQ] [DQ, DQ] @ [DQ] @ ''%''"

definition GetFacts_query :: "string \<Rightarrow> string list \<Rightarrow> string \<Rightarrow> int \<Rightarrow> facts_query" where
  "GetFacts_query query tags sourceDir limit =
     \<lparr>q_match = (if query \<noteq> [] then Some (sanitizeFTSQuery query) else None),
      q_conds = (if sourceDir \<noteq> [] then [SourceDirEq sourceDir] else [])
                @ map (\<lambda>tag. TagsLike (tag_pattern tag)) tags,
      q_limit = (if limit \<le> 0 then DefaultLimit
                 else if limit > MaxLimit then MaxLimit else limit)\<rparr>"

text \<open>
  How the engine answers it: the rows that satisfy the match and every condition, by
  \<open>updated_at\<close> descending, cut at the limit. SQL leaves the order of rows with equal
  \<open>updated_at\<close> open; the model keeps them in table order.
\<close>

fun cond_holds :: "cond \<Rightarrow> fact_row \<Rightarrow> bool" where
  "cond_holds (SourceDirEq d) r = (col_source_dir r = d)"
| "cond_holds (TagsLike p) r = sqlite_like p (col_tags r)"

definition row_selected :: "'a libs_scheme \<Rightarrow> facts_query \<Rightarrow> fact_row \<Rightarrow> bool" where
  "row_selected L q r =
     ((case q_match q of None \<Rightarrow> True | Some m \<Rightarrow> fts5_match L m (col_content r))
      \<and> list_all (\<lambda>c. cond_holds c r) (q_conds q))"

definition run_facts_query :: "'a libs_scheme \<Rightarrow> facts_query \<Rightarrow> fact_row list \<Rightarrow> fact_row list" where
  "run_facts_query L q rows =
     take (nat (q_limit q)) (sort_key (\<lambda>r. - col_updated_at r) (filter (row_selected L q) rows))"

text \<open>
  Reading a row into a \<^verbatim>\<open>Fact\<close>: when the tags do not unmarshal, the tags are the empty
  slice.
\<close>

definition scan_fact :: "'a libs_scheme \<Rightarrow> fact_row \<Rightarrow> Fact" where
  "scan_fact L r =
     \<lparr>ID = col_id r, Content = col_content r,
      Tags = (case json_Unmarshal_tags L (col_tags r) of None \<Rightarrow> [] | Some ts \<Rightarrow> ts),
      SourceDir = col_source_dir r, CreatedAt = col_created_at r, UpdatedAt = col_updated_at r\<rparr>"

definition GetFacts ::
  "'a libs_scheme \<Rightarrow> string \<Rightarrow> string list \<Rightarrow> string \<Rightarrow> int \<Rightarrow> world \<Rightarrow> (string + Fact list) \<times> world" where
  "GetFacts L query tags sourceDir limit w =
     (let q = GetFacts_query query tags sourceDir limit;
          (err, w1) = db_call w
      in case err of
           Some e \<Rightarrow> (Inl e, w1)
         | None \<Rightarrow> (Inr (map (scan_fact L) (run_facts_query L q (facts w1))), w1))"

text \<open>\<^verbatim>\<open>GetFactByID\<close>: no row is \<open>Inr None\<close> (Go's \<^verbatim>\<open>nil, nil\<close>), not an error.\<close>

definition GetFactByID :: "'a libs_scheme \<Rightarrow> int \<Rightarrow> world \<Rightarrow> (string + Fact option) \<times> world" where
  "GetFactByID L i w =
     (let (err, w1) = db_call w
      in case err of
           Some e \<Rightarrow> (Inl e, w1)
         | None \<Rightarrow> (Inr (map_option (scan_fact L) (find (\<lambda>r. col_id r = i) (facts w1))), w1))"


section \<open>Instances (internal/store/sqlite.go)\<close>




definition GetInstances :: "world \<Rightarrow> (string + Instance list) \<times> world" where
  "GetInstances w =
     (let (err, w1) = db_call w
      in case err of
           Some e \<Rightarrow> (Inl e, w1)
         | None \<Rightarrow> (Inr (sort_key (\<lambda>r. - inst_StartedAt r) (instances w1)), w1))"

definition GetInstance :: "string \<Rightarrow> world \<Rightarrow> (string + Instance option) \<times> world" where
  "GetInstance i w =
     (let (err, w1) = db_call w
      in case err of
           Some e \<Rightarrow> (Inl e, w1)
         | None \<Rightarrow> (Inr (find (\<lambda>r. inst_ID r = i) (instances w1)), w1))"

text \<open>
  \<^verbatim>\<open>
  cutoff := time.Now().Add(-maxAge)
  _, err := s.db.Exec("DELETE FROM instances WHERE last_heartbeat < ?", cutoff)
  \<close>
\<close>

definition CleanupStaleInstances :: "Duration \<Rightarrow> world \<Rightarrow> string option \<times> world" where
  "CleanupStaleInstances maxAge w =
     (let (now, w1) = time_Now w;
          cutoff = time_Add now (- maxAge);
          (err, w2) = db_call w1
      in case err of
           Some e \<Rightarrow> (Some e, w2)
         | None \<Rightarrow>
             (None, w2\<lparr>instances :=
                        filter (\<lambda>r. \<not> inst_LastHeartbeat r < cutoff) (instances w2)\<rparr>))"

section \<open>Messages (internal/store/sqlite.go)\<close>

definition SendMessage :: "string \<Rightarrow> string \<Rightarrow> string \<Rightarrow> world \<Rightarrow> (string + Message) \<times> world" where
  "SendMessage from to content w =
     (let (now, w1) = time_Now w;
          (err, w2) = db_call w1
      in case err of
           Some e \<Rightarrow> (Inl e, w2)
         | None \<Rightarrow>
             (let i = next_id (messages_seq w2) (map msg_ID (messages w2));
                  m = \<lparr>msg_ID = i, msg_FromInstance = from, msg_ToInstance = to,
                       msg_Content = content, msg_CreatedAt = now, msg_ReadAt = None\<rparr>
              in (Inr m, w2\<lparr>messages := messages w2 @ [m], messages_seq := i\<rparr>)))"

definition GetMessages :: "string \<Rightarrow> bool \<Rightarrow> world \<Rightarrow> (string + Message list) \<times> world" where
  "GetMessages toInstance unreadOnly w =
     (let (err, w1) = db_call w
      in case err of
           Some e \<Rightarrow> (Inl e, w1)
         | None \<Rightarrow>
             (Inr (sort_key msg_CreatedAt
                     (filter (\<lambda>m. msg_ToInstance m = toInstance
                                   \<and> (unreadOnly \<longrightarrow> msg_ReadAt m = None)) (messages w1))),
              w1))"

definition MarkMessageRead :: "int \<Rightarrow> world \<Rightarrow> string option \<times> world" where
  "MarkMessageRead i w =
     (let (now, w1) = time_Now w;
          (err, w2) = db_call w1
      in case err of
           Some e \<Rightarrow> (Some e, w2)
         | None \<Rightarrow>
             (None, w2\<lparr>messages :=
                        map (\<lambda>m. if msg_ID m = i then m\<lparr>msg_ReadAt := Some now\<rparr> else m)
                          (messages w2)\<rparr>))"

section \<open>Tool handlers (internal/mcp/tools.go)\<close>

text \<open>
  Tool arguments arrive as a \<^verbatim>\<open>map[string]interface{}\<close> decoded from JSON. A JSON number
  is a \<^verbatim>\<open>float64\<close>; the program does nothing with one but convert it with \<^verbatim>\<open>int(l)\<close>, so
  the type is left open and the conversion is taken from the environment.
\<close>

typedecl float64

datatype json =
  JNull | JBool bool | JNumber float64 | JString string
| JArray "json list" | JObject "(string \<times> json) list"

type_synonym arguments = "string \<rightharpoonup> json"

record ContentBlock =
  cb_Type :: string
  cb_Text :: string

record ToolResult =
  tr_Content :: "ContentBlock list"
  tr_IsError :: bool

record Server =
  instanceID :: string
  workDir :: string

record Request =
  req_JSONRPC :: string
  req_ID :: json
  req_Method :: string
  req_Params :: string

record ToolCallParams =
  tc_Name :: string
  tc_Arguments :: arguments

text \<open>
  The libraries of the protocol layer: \<^verbatim>\<open>t.Format(layout)\<close>, \<^verbatim>\<open>int(l)\<close> on a
  \<^verbatim>\<open>float64\<close>, and \<^verbatim>\<open>json.Unmarshal\<close> of a line into a \<^verbatim>\<open>Request\<close> and of the raw
  parameters into \<^verbatim>\<open>ToolCallParams\<close> (\<open>None\<close> when it returns an error).
\<close>

record mcp_libs = libs +
  time_Format :: "time \<Rightarrow> string \<Rightarrow> string"
  int_of_float64 :: "float64 \<Rightarrow> int"
  decode_Request :: "string \<Rightarrow> Request option"
  decode_ToolCallParams :: "string \<Rightarrow> ToolCallParams option"

abbreviation NL :: char where "NL \<equiv> CHR 0x0A"
abbreviation SQ :: char where "SQ \<equiv> CHR 0x27"
abbreviation BQ :: char where "BQ \<equiv> CHR 0x60"

text \<open>The verb \<^verbatim>\<open>%d\<close> of \<^verbatim>\<open>fmt.Sprintf\<close>.\<close>

function digits :: "nat \<Rightarrow> string" where
  "digits n =
     (if n < 10 then [''0123456789'' ! n] else digits (n div 10) @ [''0123456789'' ! (n mod 10)])"
  by pat_completeness auto
termination
  by (relation "measure (\<lambda>n. n)") auto

declare digits.simps [simp del]

definition fmt_d :: "int \<Rightarrow> string" where
  "fmt_d i = (if i < 0 then CHR ''-'' # digits (nat (- i)) else digits (nat i))"

definition textResult :: "string \<Rightarrow> ToolResult" where
  "textResult text = \<lparr>tr_Content = [\<lparr>cb_Type = ''text'', cb_Text = text\<rparr>], tr_IsError = False\<rparr>"

definition errorResult :: "string \<Rightarrow> ToolResult" where
  "errorResult msg = \<lparr>tr_Content = [\<lparr>cb_Type = ''text'', cb_Text = msg\<rparr>], tr_IsError = True\<rparr>"

text \<open>
  \<^verbatim>\<open>truncate(s, maxLen)\<close>; its one call passes 100 (for \<open>maxLen < 3\<close> the slice
  \<^verbatim>\<open>s[:maxLen-3]\<close> of the source panics).
\<close>

definition truncate_text :: "string \<Rightarrow> int \<Rightarrow> string" where
  "truncate_text s maxLen =
     (if int (length s) \<le> maxLen then s else take (nat (maxLen - 3)) s @ ''...'')"

text \<open>
  The loop that both \<^verbatim>\<open>toolRemember\<close> and \<^verbatim>\<open>toolRecall\<close> run over the \<open>tags\<close>
  argument:
  \<^verbatim>\<open>
  var tags []string
  if tagsRaw, ok := args["tags"].([]interface{}); ok {
      for _, t := range tagsRaw {
          if tag, ok := t.(string); ok {
              tags = append(tags, tag)
          }
      }
  }
  \<close>
\<close>

definition tags_of_args :: "arguments \<Rightarrow> string list" where
  "tags_of_args args =
     (case args ''tags'' of
        Some (JArray tagsRaw) \<Rightarrow>
          fold (\<lambda>t tags. case t of JString tag \<Rightarrow> tags @ [tag] | _ \<Rightarrow> tags) tagsRaw []
      | _ \<Rightarrow> [])"

definition toolRemember :: "'a mcp_libs_scheme \<Rightarrow> Server \<Rightarrow> arguments \<Rightarrow> world \<Rightarrow> ToolResult \<times> world" where
  "toolRemember L s args w =
     (case args ''fact'' of
        Some (JString fct) \<Rightarrow>
          if fct = [] then (errorResult ''fact is required'', w)
          else
            (let tags = tags_of_args args;
                 (r, w1) = AddFact fct tags (workDir s) w
             in case r of
                  Inl err \<Rightarrow> (errorResult (''failed to store fact: '' @ err), w1)
                | Inr stored \<Rightarrow>
                    (textResult (''Stored fact #'' @ fmt_d (ID stored) @ '': '' @ truncate_text fct 100), w1))
      | _ \<Rightarrow> (errorResult ''fact is required'', w))"

definition render_fact :: "'a mcp_libs_scheme \<Rightarrow> Fact \<Rightarrow> string" where
  "render_fact L f =
     ''**#'' @ fmt_d (ID f) @ ''** ['' @ time_Format L (CreatedAt f) ''2006-01-02 15:04'' @ '']'' @ [NL]
     @ (if length (Tags f) > 0 then ''Tags: '' @ Join (Tags f) '', '' @ [NL] else [])
     @ ''Dir: '' @ SourceDir f @ [NL]
     @ Content f @ [NL, NL]"

definition toolRecall :: "'a mcp_libs_scheme \<Rightarrow> Server \<Rightarrow> arguments \<Rightarrow> world \<Rightarrow> ToolResult \<times> world" where
  "toolRecall L s args w =
     (let query = (case args ''query'' of Some (JString q) \<Rightarrow> q | _ \<Rightarrow> []);
          tags = tags_of_args args;
          sourceDir = (case args ''current_dir_only'' of
                         Some (JBool currentDirOnly) \<Rightarrow> if currentDirOnly then workDir s else []
                       | _ \<Rightarrow> []);
          limit = (case args ''limit'' of Some (JNumber l) \<Rightarrow> int_of_float64 L l | _ \<Rightarrow> 20);
          (r, w1) = GetFacts L query tags sourceDir limit w
      in case r of
           Inl err \<Rightarrow> (errorResult (''failed to recall facts: '' @ err), w1)
         | Inr fs \<Rightarrow>
             if length fs = 0 then (textResult ''No facts found matching your query.'', w1)
             else (textResult (''Found '' @ fmt_d (int (length fs)) @ '' fact(s):'' @ [NL, NL]
                               @ concat (map (render_fact L) fs)), w1))"

definition tagStr :: "string list \<Rightarrow> string" where
  "tagStr tags = (if length tags > 0 then '' ['' @ Join tags '', '' @ '']'' else [])"

definition toolGetContext :: "'a mcp_libs_scheme \<Rightarrow> Server \<Rightarrow> arguments \<Rightarrow> world \<Rightarrow> ToolResult \<times> world" where
  "toolGetContext L s args w =
     (let (r1, w1) = GetFacts L [] [] (workDir s) 50 w
      in case r1 of
           Inl err \<Rightarrow> (errorResult (''failed to get local context: '' @ err), w1)
         | Inr localFacts \<Rightarrow>
             (let (r2, w2) = GetFacts L [] [] [] 20 w1
              in case r2 of
                   Inl err \<Rightarrow> (errorResult (''failed to get global context: '' @ err), w2)
                 | Inr globalFacts \<Rightarrow>
                     (let otherFacts = filter (\<lambda>f. ID f \<notin> set (map ID localFacts)) globalFacts
                      in (textResult
                           (''# Context for '' @ workDir s @ [NL, NL]
                            @ (if length localFacts > 0
                               then ''## Local Facts (this directory)'' @ [NL, NL]
                                    @ concat (map (\<lambda>f. ''- '' @ Content f @ tagStr (Tags f) @ [NL]) localFacts)
                                    @ [NL]
                               else [])
                            @ (if length otherFacts > 0
                               then ''## Recent Facts (other directories)'' @ [NL, NL]
                                    @ concat (map (\<lambda>f. ''- '' @ Content f @ '' ('' @ SourceDir f @ '')''
                                                       @ tagStr (Tags f) @ [NL]) otherFacts)
                               else [])
                            @ (if length localFacts = 0 \<and> length otherFacts = 0
                               then ''No stored context yet. Use the '' @ [BQ] @ ''remember'' @ [BQ]
                                    @ '' tool to store facts and decisions.'' @ [NL]
                               else [])), w2))))"

text \<open>\<^verbatim>\<open>5 * time.Minute\<close>, in nanoseconds.\<close>

definition five_minutes :: Duration where
  "five_minutes = 300000000000"

definition render_instance :: "'a mcp_libs_scheme \<Rightarrow> Server \<Rightarrow> Instance \<Rightarrow> string" where
  "render_instance L s inst =
     ''**'' @ inst_ID inst @ ''**'' @ (if inst_ID inst = instanceID s then '' (this instance)'' else []) @ [NL]
     @ ''  Directory: '' @ inst_Directory inst @ [NL]
     @ ''  Started: '' @ time_Format L (inst_StartedAt inst) ''2006-01-02 15:04:05'' @ [NL]
     @ ''  Last heartbeat: '' @ time_Format L (inst_LastHeartbeat inst) ''15:04:05'' @ [NL, NL]"

text \<open>The error of the cleanup is dropped by the source.\<close>

definition toolListInstances :: "'a mcp_libs_scheme \<Rightarrow> Server \<Rightarrow> arguments \<Rightarrow> world \<Rightarrow> ToolResult \<times> world" where
  "toolListInstances L s args w =
     (let (_, w1) = CleanupStaleInstances five_minutes w;
          (r, w2) = GetInstances w1
      in case r of
           Inl err \<Rightarrow> (errorResult (''failed to list instances: '' @ err), w2)
         | Inr insts \<Rightarrow>
             if length insts = 0 then (textResult ''No other running instances found.'', w2)
             else (textResult (''Found '' @ fmt_d (int (length insts)) @ '' running instance(s):'' @ [NL, NL]
                               @ concat (map (render_instance L s) insts)), w2))"

definition toolSendMessage :: "'a mcp_libs_scheme \<Rightarrow> Server \<Rightarrow> arguments \<Rightarrow> world \<Rightarrow> ToolResult \<times> world" where
  "toolSendMessage L s args w =
     (case args ''to'' of
        Some (JString to) \<Rightarrow>
          if to = [] then (errorResult ([SQ] @ ''to'' @ [SQ] @ '' instance ID is required''), w)
          else
            (case args ''content'' of
               Some (JString content) \<Rightarrow>
                 if content = [] then (errorResult ([SQ] @ ''content'' @ [SQ] @ '' is required''), w)
                 else
                   (let (r, w1) = GetInstance to w
                    in case r of
                         Inl err \<Rightarrow> (errorResult (''failed to find instance: '' @ err), w1)
                       | Inr None \<Rightarrow> (errorResult (''instance '' @ [SQ] @ to @ [SQ] @ '' not found''), w1)
                       | Inr (Some target) \<Rightarrow>
                           (let (r2, w2) = SendMessage (instanceID s) to content w1
                            in case r2 of
                                 Inl err \<Rightarrow> (errorResult (''failed to send message: '' @ err), w2)
                               | Inr msg \<Rightarrow>
                                   (textResult (''Message #'' @ fmt_d (msg_ID msg) @ '' sent to '' @ to), w2)))
             | _ \<Rightarrow> (errorResult ([SQ] @ ''content'' @ [SQ] @ '' is required''), w))
      | _ \<Rightarrow> (errorResult ([SQ] @ ''to'' @ [SQ] @ '' instance ID is required''), w))"

text \<open>
  The loop of \<^verbatim>\<open>toolGetMessages\<close> over the messages it got: each is rendered, and one
  whose \<^verbatim>\<open>ReadAt\<close> is nil is marked read in the store; the error of the marking is
  dropped by the source.
\<close>

definition render_message :: "'a mcp_libs_scheme \<Rightarrow> Message \<Rightarrow> string" where
  "render_message L m =
     (let readStatus = (case msg_ReadAt m of
                          None \<Rightarrow> ''unread''
                        | Some t \<Rightarrow> ''read at '' @ time_Format L t ''15:04'')
      in ''**#'' @ fmt_d (msg_ID m) @ ''** from '' @ msg_FromInstance m @ '' ('' @ readStatus @ '')'' @ [NL]
         @ ''  Time: '' @ time_Format L (msg_CreatedAt m) ''2006-01-02 15:04:05'' @ [NL]
         @ ''  '' @ msg_Content m @ [NL, NL])"

fun messages_loop :: "'a mcp_libs_scheme \<Rightarrow> Message list \<Rightarrow> string \<Rightarrow> world \<Rightarrow> string \<times> world" where
  "messages_loop L [] sb w = (sb, w)"
| "messages_loop L (m # ms) sb w =
     messages_loop L ms (sb @ render_message L m)
       (case msg_ReadAt m of None \<Rightarrow> snd (MarkMessageRead (msg_ID m) w) | Some t \<Rightarrow> w)"

text \<open>
  \<^verbatim>\<open>
  unreadOnly := true
  if val, ok := args["unread_only"].(bool); ok {
      unreadOnly = val
  }
  \<close>
\<close>

definition unreadOnly_arg :: "arguments \<Rightarrow> bool" where
  "unreadOnly_arg args = (case args ''unread_only'' of Some (JBool val) \<Rightarrow> val | _ \<Rightarrow> True)"

definition toolGetMessages :: "'a mcp_libs_scheme \<Rightarrow> Server \<Rightarrow> arguments \<Rightarrow> world \<Rightarrow> ToolResult \<times> world" where
  "toolGetMessages L s args w =
     (let unreadOnly = unreadOnly_arg args;
          (r, w1) = GetMessages (instanceID s) unreadOnly w
      in case r of
           Inl err \<Rightarrow> (errorResult (''failed to get messages: '' @ err), w1)
         | Inr msgs \<Rightarrow>
             if length msgs = 0
             then (if unreadOnly then (textResult ''No unread messages.'', w1)
                   else (textResult ''No messages.'', w1))
             else (let (sb, w2) = messages_loop L msgs
                                    (''Found '' @ fmt_d (int (length msgs)) @ '' message(s):'' @ [NL, NL]) w1
                   in (textResult sb, w2)))"


section \<open>Protocol engine (internal/mcp)\<close>

definition ProtocolVersion :: string where "ProtocolVersion = ''2024-11-05''"
definition ServerName :: string where "ServerName = ''clauder''"
definition ServerVersion :: string where "ServerVersion = ''0.1.0''"

record RpcError =
  err_Code :: int
  err_Message :: string

record InitializeResult =
  ir_ProtocolVersion :: string
  ir_ServerName :: string
  ir_ServerVersion :: string

text \<open>
  An entry of the tool catalog: its name, its properties with their JSON types, and the
  required ones (the descriptions are left out).
\<close>

record Tool =
  tool_Name :: string
  tool_Properties :: "(string \<times> string) list"
  tool_Required :: "string list"

datatype result =
  InitializeRes InitializeResult | ToolsListRes "Tool list" | ToolCallRes ToolResult | EmptyRes

text \<open>
  A response envelope as \<^verbatim>\<open>send\<close> writes it, one line each; the output of the server is
  the list of the envelopes written so far.
\<close>

record Response =
  resp_JSONRPC :: string
  resp_ID :: json
  resp_Result :: "result option"
  resp_Error :: "RpcError option"

definition sendResult :: "json \<Rightarrow> result \<Rightarrow> Response" where
  "sendResult i r = \<lparr>resp_JSONRPC = ''2.0'', resp_ID = i, resp_Result = Some r, resp_Error = None\<rparr>"

definition sendError :: "json \<Rightarrow> int \<Rightarrow> string \<Rightarrow> Response" where
  "sendError i code message =
     \<lparr>resp_JSONRPC = ''2.0'', resp_ID = i, resp_Result = None,
      resp_Error = Some \<lparr>err_Code = code, err_Message = message\<rparr>\<rparr>"

definition tools_catalog :: "Tool list" where
  "tools_catalog =
     [\<lparr>tool_Name = ''remember'',
       tool_Properties = [(''fact'', ''string''), (''tags'', ''array'')],
       tool_Required = [''fact'']\<rparr>,
      \<lparr>tool_Name = ''recall'',
       tool_Properties = [(''query'', ''string''), (''tags'', ''array''),
                          (''current_dir_only'', ''boolean''), (''limit'', ''integer'')],
       tool_Required = []\<rparr>,
      \<lparr>tool_Name = ''get_context'', tool_Properties = [], tool_Required = []\<rparr>,
      \<lparr>tool_Name = ''list_instances'', tool_Properties = [], tool_Required = []\<rparr>,
      \<lparr>tool_Name = ''send_message'',
       tool_Properties = [(''to'', ''string''), (''content'', ''string'')],
       tool_Required = [''to'', ''content'']\<rparr>,
      \<lparr>tool_Name = ''get_messages'',
       tool_Properties = [(''unread_only'', ''boolean'')],
       tool_Required = []\<rparr>]"

definition handleToolCall :: "'a mcp_libs_scheme \<Rightarrow> Server \<Rightarrow> Request \<Rightarrow> world \<Rightarrow> Response list \<times> world" where
  "handleToolCall L s req w =
     (case decode_ToolCallParams L (req_Params req) of
        None \<Rightarrow> ([sendError (req_ID req) (- 32602) ''Invalid params''], w)
      | Some params \<Rightarrow>
          (let name = tc_Name params;
               (r, w1) =
                 (if name = ''remember'' then toolRemember L s (tc_Arguments params) w
                  else if name = ''recall'' then toolRecall L s (tc_Arguments params) w
                  else if name = ''get_context'' then toolGetContext L s (tc_Arguments params) w
                  else if name = ''list_instances'' then toolListInstances L s (tc_Arguments params) w
                  else if name = ''send_message'' then toolSendMessage L s (tc_Arguments params) w
                  else if name = ''get_messages'' then toolGetMessages L s (tc_Arguments params) w
                  else (\<lparr>tr_Content = [\<lparr>cb_Type = ''text'', cb_Text = ''Unknown tool: '' @ name\<rparr>],
                         tr_IsError = True\<rparr>, w))
           in ([sendResult (req_ID req) (ToolCallRes r)], w1)))"

definition handleRequest :: "'a mcp_libs_scheme \<Rightarrow> Server \<Rightarrow> Request \<Rightarrow> world \<Rightarrow> Response list \<times> world" where
  "handleRequest L s req w =
     (if req_Method req = ''initialize''
      then ([sendResult (req_ID req)
               (InitializeRes \<lparr>ir_ProtocolVersion = ProtocolVersion, ir_ServerName = ServerName,
                               ir_ServerVersion = ServerVersion\<rparr>)], w)
      else if req_Method req = ''initialized'' then ([], w)
      else if req_Method req = ''tools/list'' then ([sendResult (req_ID req) (ToolsListRes tools_catalog)], w)
      else if req_Method req = ''tools/call'' then handleToolCall L s req w
      else if req_Method req = ''ping'' then ([sendResult (req_ID req) EmptyRes], w)
      else ([sendError (req_ID req) (- 32601) ''Method not found''], w))"

text \<open>
  The input of \<^verbatim>\<open>Run\<close>: the lines that \<^verbatim>\<open>ReadBytes('\n')\<close> returns without an error,
  and then the error that ends the reading, \<^verbatim>\<open>io.EOF\<close> or another one (bytes read
  together with that error are dropped by the source). \<open>out\<close> is what has been written.
  \<^verbatim>\<open>
  for {
      line, err := s.reader.ReadBytes('\n')
      if err != nil {
          if err == io.EOF { return nil }
          return fmt.Errorf("read error: %w", err)
      }
      var req Request
      if err := json.Unmarshal(line, &req); err != nil {
          s.sendError(nil, -32700, "Parse error", nil)
          continue
      }
      s.handleRequest(&req)
  }
  \<close>
  The result is Go's error (\<open>None\<close> for nil), the output and the final state.
\<close>

datatype read_end = EOF | ReadError string

fun Run ::
  "'a mcp_libs_scheme \<Rightarrow> Server \<Rightarrow> string list \<Rightarrow> read_end \<Rightarrow> Response list \<Rightarrow> world
     \<Rightarrow> string option \<times> Response list \<times> world" where
  "Run L s [] fin out w =
     (case fin of EOF \<Rightarrow> (None, out, w) | ReadError e \<Rightarrow> (Some (''read error: '' @ e), out, w))"
| "Run L s (line # rest) fin out w =
     (case decode_Request L line of
        None \<Rightarrow> Run L s rest fin (out @ [sendError JNull (- 32700) ''Parse error'']) w
      | Some req \<Rightarrow>
          (let (resps, w1) = handleRequest L s req w in Run L s rest fin (out @ resps) w1))"


section \<open>Later activity on the store\<close>





section \<open>Sample environment and states\<close>

text \<open>
  A small environment and a few states on which the theorems below are instantiated. The
  sample search engine accepts a row when the query is one string literal whose content
  is the row's content; the sample tag decoder only knows the empty array.
\<close>

definition sample_libs :: mcp_libs where
  "sample_libs =
     \<lparr>fts5_match = (\<lambda>q c. fts5_string q = Some (c, [])),
      json_Unmarshal_tags = (\<lambda>t. if t = ''[]'' then Some [] else None),
      time_Format = (\<lambda>t layout. layout),
      int_of_float64 = (\<lambda>x. 0),
      decode_Request =
        (\<lambda>line. if line = ''ping'' @ [NL]
                 then Some \<lparr>req_JSONRPC = ''2.0'', req_ID = JNull, req_Method = ''ping'', req_Params = []\<rparr>
               else if line = ''bogus'' @ [NL]
                 then Some \<lparr>req_JSONRPC = ''2.0'', req_ID = JString ''7'', req_Method = ''bogus'', req_Params = []\<rparr>
               else None),
      decode_ToolCallParams = (\<lambda>p. None)\<rparr>"

definition sample_server :: Server where
  "sample_server = \<lparr>instanceID = ''me'', workDir = ''/w''\<rparr>"

definition empty_world :: world where
  "empty_world =
     \<lparr>facts = [], facts_seq = 0, instances = [], messages = [], messages_seq = 0,
      faults = [], clock = (\<lambda>n. int n), ticks = 0\<rparr>"

definition sample_row :: "int \<Rightarrow> string \<Rightarrow> string \<Rightarrow> time \<Rightarrow> fact_row" where
  "sample_row i content tags t =
     \<lparr>col_id = i, col_content = content, col_tags = tags, col_source_dir = ''/w'',
      col_created_at = t, col_updated_at = t\<rparr>"

definition sample_query :: string where
  "sample_query = [CHR ''O'', CHR ''R'', DQ, CHR ''*'']"

definition facts_world :: world where
  "facts_world =
     empty_world\<lparr>facts := [sample_row 1 sample_query ''[]'' 5, sample_row 2 ''b'' ''{'' 6,
                            sample_row 3 ''c'' ''[]'' 7]\<rparr>"

definition many_facts_world :: world where
  "many_facts_world =
     empty_world\<lparr>facts := map (\<lambda>i. sample_row (int i) ''test fact'' ''[]'' (int i)) [1..<151]\<rparr>"

definition instances_world :: world where
  "instances_world =
     empty_world\<lparr>instances :=
        [\<lparr>inst_ID = ''old-instance'', inst_PID = 111, inst_Directory = ''/old'',
          inst_StartedAt = 0, inst_LastHeartbeat = 0\<rparr>,
         \<lparr>inst_ID = ''new-instance'', inst_PID = 222, inst_Directory = ''/new'',
          inst_StartedAt = 500000000000, inst_LastHeartbeat = 500000000000\<rparr>],
       clock := (\<lambda>n. 600000000000)\<rparr>"

definition send_args :: "string \<Rightarrow> arguments" where
  "send_args to = [''to'' \<mapsto> JString to, ''content'' \<mapsto> JString ''hello!'']"



section \<open>Verification\<close>

subsection \<open>Strings\<close>




subsection \<open>The store's statements\<close>

lemma db_call_ok [simp]: "faults w = [] \<Longrightarrow> db_call w = (None, w)"
  by (simp add: db_call_def)

lemma db_call_tables:
  "db_call w = (e, w') \<Longrightarrow>
     facts w' = facts w \<and> instances w' = instances w \<and> messages w' = messages w
     \<and> facts_seq w' = facts_seq w \<and> messages_seq w' = messages_seq w"
  by (auto simp: db_call_def split: list.splits)

lemma run_facts_query_subset:
  "r \<in> set (run_facts_query L q rows) \<Longrightarrow> r \<in> set rows \<and> row_selected L q r"
  unfolding run_facts_query_def by (auto dest: in_set_takeD)


subsection \<open>Search sanitization\<close>







subsection \<open>Limit bounds\<close>

lemma length_run_facts_query:
  "length (run_facts_query L q rows) = min (nat (q_limit q)) (length (filter (row_selected L q) rows))"
  by (simp add: run_facts_query_def)

lemma GetFacts_ok:
  "faults w = [] \<Longrightarrow>
     GetFacts L query tags sourceDir limit w
       = (Inr (map (scan_fact L) (run_facts_query L (GetFacts_query query tags sourceDir limit) (facts w))), w)"
  by (simp add: GetFacts_def)

text \<open>
  Claim C6. When the statement succeeds, \<open>GetFacts\<close> returns as many facts as rows match
  the query, the tags and the directory, but no more than the limit in force: 100
  (\<open>DefaultLimit\<close>) for a limit that is zero or negative, 1000 (\<open>MaxLimit\<close>) for a limit
  above 1000, and the limit itself otherwise. So a limit \<open>\<le> 0\<close> gives exactly 100 rows
  when at least 100 match, and a limit above 1000 never more than 1000.
\<close>

theorem limit_bounds:
  assumes "faults w = []"
  shows "\<exists>fs. GetFacts L query tags sourceDir limit w = (Inr fs, w)
      \<and> (limit \<le> 0 \<longrightarrow>
            length fs = min (nat DefaultLimit)
               (length (filter (row_selected L (GetFacts_query query tags sourceDir limit)) (facts w))))
      \<and> (MaxLimit < limit \<longrightarrow>
            length fs = min (nat MaxLimit)
               (length (filter (row_selected L (GetFacts_query query tags sourceDir limit)) (facts w))))
      \<and> (0 < limit \<and> limit \<le> MaxLimit \<longrightarrow>
            length fs = min (nat limit)
               (length (filter (row_selected L (GetFacts_query query tags sourceDir limit)) (facts w))))
      \<and> DefaultLimit = 100 \<and> MaxLimit = 1000"
proof -
  let ?q = "GetFacts_query query tags sourceDir limit"
  let ?fs = "map (scan_fact L) (run_facts_query L ?q (facts w))"
  have g: "GetFacts L query tags sourceDir limit w = (Inr ?fs, w)"
    using assms by (rule GetFacts_ok)
  have len: "length ?fs = min (nat (q_limit ?q)) (length (filter (row_selected L ?q) (facts w)))"
    by (simp add: length_run_facts_query)
  have l1: "limit \<le> 0 \<Longrightarrow> q_limit ?q = DefaultLimit"
    by (simp add: GetFacts_query_def)
  have l2: "MaxLimit < limit \<Longrightarrow> q_limit ?q = MaxLimit"
    by (simp add: GetFacts_query_def MaxLimit_def)
  have l3: "0 < limit \<and> limit \<le> MaxLimit \<Longrightarrow> q_limit ?q = limit"
    by (simp add: GetFacts_query_def)
  show ?thesis
    using g len l1 l2 l3 by (auto simp: DefaultLimit_def MaxLimit_def)
qed

lemma many_selected:
  "filter (row_selected sample_libs (GetFacts_query [] [] [] l)) (facts many_facts_world)
     = facts many_facts_world"
  by (simp add: row_selected_def GetFacts_query_def)

lemma many_length: "length (facts many_facts_world) = 150"
  by (simp add: many_facts_world_def)

theorem limit_bounds_witness:
  "length (projr (fst (GetFacts sample_libs [] [] [] 0 many_facts_world))) = 100
   \<and> length (projr (fst (GetFacts sample_libs [] [] [] 5000 many_facts_world))) = 150
   \<and> length (projr (fst (GetFacts sample_libs [] [] [] 50 many_facts_world))) = 50"
proof -
  have f: "faults many_facts_world = []"
    by (simp add: many_facts_world_def empty_world_def)
  from limit_bounds [OF f, of sample_libs "[]" "[]" "[]" 0]
  have a: "length (projr (fst (GetFacts sample_libs [] [] [] 0 many_facts_world))) = 100"
    by (auto simp: many_selected many_length DefaultLimit_def)
  from limit_bounds [OF f, of sample_libs "[]" "[]" "[]" 5000]
  have b: "length (projr (fst (GetFacts sample_libs [] [] [] 5000 many_facts_world))) = 150"
    by (auto simp: many_selected many_length MaxLimit_def)
  from limit_bounds [OF f, of sample_libs "[]" "[]" "[]" 50]
  have c: "length (projr (fst (GetFacts sample_libs [] [] [] 50 many_facts_world))) = 50"
    by (auto simp: many_selected many_length MaxLimit_def)
  from a b c show ?thesis by simp
qed

subsection \<open>Stale instances\<close>




subsection \<open>Corrupted tags\<close>

lemma find_distinct_id:
  "distinct (map col_id rows) \<Longrightarrow> r \<in> set rows \<Longrightarrow> find (\<lambda>x. col_id x = col_id r) rows = Some r"
  by (induction rows) (auto simp: rev_image_eqI)

text \<open>
  Claim C9. Let \<open>r\<close> be a stored fact whose tags column does not unmarshal, in a table
  whose ids are distinct (they are the primary key), and let the statements succeed.
  Then \<open>GetFactByID\<close> returns the fact of \<open>r\<close> with no tags; and \<open>GetFacts\<close> succeeds,
  returns one fact for each row that its statement selects, and returns the fact of \<open>r\<close>
  with no tags when \<open>r\<close> is among them.
\<close>

theorem corrupted_tags_degrade:
  assumes "faults w = []"
    and "r \<in> set (facts w)"
    and "distinct (map col_id (facts w))"
    and "json_Unmarshal_tags L (col_tags r) = None"
  shows "GetFactByID L (col_id r) w
           = (Inr (Some \<lparr>ID = col_id r, Content = col_content r, Tags = [],
                         SourceDir = col_source_dir r, CreatedAt = col_created_at r,
                         UpdatedAt = col_updated_at r\<rparr>), w)
       \<and> (\<exists>fs. GetFacts L query tags sourceDir limit w = (Inr fs, w)
             \<and> length fs = length (run_facts_query L (GetFacts_query query tags sourceDir limit) (facts w))
             \<and> (r \<in> set (run_facts_query L (GetFacts_query query tags sourceDir limit) (facts w)) \<longrightarrow>
                  \<lparr>ID = col_id r, Content = col_content r, Tags = [],
                   SourceDir = col_source_dir r, CreatedAt = col_created_at r,
                   UpdatedAt = col_updated_at r\<rparr> \<in> set fs)
             \<and> (\<forall>f \<in> set fs. ID f = col_id r \<longrightarrow> Tags f = []))"
proof -
  let ?f = "\<lparr>ID = col_id r, Content = col_content r, Tags = [],
             SourceDir = col_source_dir r, CreatedAt = col_created_at r,
             UpdatedAt = col_updated_at r\<rparr>"
  let ?rows = "run_facts_query L (GetFacts_query query tags sourceDir limit) (facts w)"
  have sc: "scan_fact L r = ?f"
    using assms(4) by (simp add: scan_fact_def)
  have byid: "GetFactByID L (col_id r) w = (Inr (Some ?f), w)"
    using assms(1) find_distinct_id [OF assms(3) assms(2)] sc by (simp add: GetFactByID_def)
  have g: "GetFacts L query tags sourceDir limit w = (Inr (map (scan_fact L) ?rows), w)"
    using assms(1) by (rule GetFacts_ok)
  have inres: "r \<in> set ?rows \<Longrightarrow> ?f \<in> set (map (scan_fact L) ?rows)"
    using sc by force
  have same: "Tags f = []" if f: "f \<in> set (map (scan_fact L) ?rows)" and i: "ID f = col_id r" for f
  proof -
    from f obtain r' where r': "r' \<in> set ?rows" and fr: "f = scan_fact L r'" by auto
    from r' have "r' \<in> set (facts w)" by (auto dest: run_facts_query_subset)
    moreover from i fr have "col_id r' = col_id r" by (simp add: scan_fact_def)
    ultimately have "r' = r"
      using assms(2,3) by (meson distinct_map inj_onD)
    with fr sc show ?thesis by simp
  qed
  show ?thesis using byid g inres same by auto
qed

lemma facts_world_run:
  "run_facts_query sample_libs (GetFacts_query [] [] [] 0) (facts facts_world)
     = [sample_row 3 ''c'' ''[]'' 7, sample_row 2 ''b'' ''{'' 6, sample_row 1 sample_query ''[]'' 5]"
  by (simp add: run_facts_query_def facts_world_def row_selected_def GetFacts_query_def
        DefaultLimit_def sample_row_def)

theorem corrupted_tags_degrade_witness:
  "GetFactByID sample_libs 2 facts_world
     = (Inr (Some \<lparr>ID = 2, Content = ''b'', Tags = [], SourceDir = ''/w'', CreatedAt = 6, UpdatedAt = 6\<rparr>),
        facts_world)
   \<and> \<lparr>ID = 2, Content = ''b'', Tags = [], SourceDir = ''/w'', CreatedAt = 6, UpdatedAt = 6\<rparr>
       \<in> set (projr (fst (GetFacts sample_libs [] [] [] 0 facts_world)))
   \<and> length (projr (fst (GetFacts sample_libs [] [] [] 0 facts_world))) = 3"
proof -
  let ?r = "sample_row 2 ''b'' ''{'' 6"
  have a1: "faults facts_world = []" by (simp add: facts_world_def empty_world_def)
  have a2: "?r \<in> set (facts facts_world)" by (simp add: facts_world_def)
  have a3: "distinct (map col_id (facts facts_world))" by (simp add: facts_world_def sample_row_def)
  have a4: "json_Unmarshal_tags sample_libs (col_tags ?r) = None"
    by (simp add: sample_libs_def sample_row_def)
  from corrupted_tags_degrade [OF a1 a2 a3 a4, of "[]" "[]" "[]" 0]
  show ?thesis by (auto simp: facts_world_run) (simp_all add: sample_row_def)
qed


subsection \<open>The tags argument\<close>










subsection \<open>Oversized facts\<close>

text \<open>
  For claim C2: \<open>toolRemember\<close> compares the length of the fact with no bound. Whatever
  value \<open>MaxFactSize\<close> has, a fact longer than that is stored whole, and the result is
  not an error, when the insertion succeeds.
\<close>

theorem remember_has_no_size_check:
  assumes "args ''fact'' = Some (JString fct)"
    and "MaxFactSize < length fct"
    and "faults w = []"
  shows "\<not> tr_IsError (fst (toolRemember L s args w))
       \<and> (\<exists>r. facts (snd (toolRemember L s args w)) = facts w @ [r] \<and> col_content r = fct)"
proof -
  from assms(2) have "fct \<noteq> []" by auto
  then show ?thesis using assms(1,3)
    by (simp add: toolRemember_def AddFact_def time_Now_def textResult_def Let_def)
qed

theorem remember_has_no_size_check_witness:
  "\<not> tr_IsError (fst (toolRemember sample_libs sample_server
                        [''fact'' \<mapsto> JString (replicate 11 CHR ''x'')] empty_world))
   \<and> map col_content (facts (snd (toolRemember sample_libs sample_server
                        [''fact'' \<mapsto> JString (replicate 11 CHR ''x'')] empty_world)))
       = [replicate 11 CHR ''x'']"
proof -
  have a: "[''fact'' \<mapsto> JString (replicate 11 CHR ''x'')] ''fact'' = Some (JString (replicate 11 CHR ''x''))"
    by simp
  have b: "(10::nat) < length (replicate 11 CHR ''x'')" by simp
  have c: "faults empty_world = []" "facts empty_world = []" by (simp_all add: empty_world_def)
  from remember_has_no_size_check [where args = "[''fact'' \<mapsto> JString (replicate 11 CHR ''x'')]"
         and fct = "replicate 11 CHR ''x''" and MaxFactSize = 10 and w = empty_world
         and L = sample_libs and s = sample_server] a b c
  show ?thesis by auto
qed

subsection \<open>Sending a message\<close>

lemma GetInstance_result:
  "GetInstance i w = (r, w') \<Longrightarrow>
     messages w' = messages w \<and> messages_seq w' = messages_seq w \<and> instances w' = instances w
     \<and> (r = Inr (find (\<lambda>x. inst_ID x = i) (instances w)) \<or> (\<exists>e. r = Inl e))"
  by (cases "db_call w") (auto simp: GetInstance_def split: option.splits dest: db_call_tables)

lemma GetInstance_ok:
  "faults w = [] \<or> hd (faults w) = None \<Longrightarrow>
     fst (GetInstance i w) = Inr (find (\<lambda>x. inst_ID x = i) (instances w))"
  by (cases "faults w") (auto simp: GetInstance_def db_call_def)

text \<open>
  Claim C4. When the \<open>to\<close> argument of \<open>send_message\<close> names no registered instance,
  the call returns an error result and creates no message, whatever else the arguments
  and the store do. When moreover both arguments pass the checks that come first (\<open>to\<close>
  and \<open>content\<close> are non-empty strings) and the lookup itself does not fail, the error is
  \<^verbatim>\<open>instance '<to>' not found\<close>.
\<close>

theorem send_message_unknown_recipient:
  assumes "\<forall>to. args ''to'' = Some (JString to) \<longrightarrow> to \<notin> inst_ID ` set (instances w)"
  shows "tr_IsError (fst (toolSendMessage L s args w))
       \<and> messages (snd (toolSendMessage L s args w)) = messages w
       \<and> messages_seq (snd (toolSendMessage L s args w)) = messages_seq w
       \<and> (\<forall>to content.
             args ''to'' = Some (JString to) \<and> to \<noteq> []
             \<and> args ''content'' = Some (JString content) \<and> content \<noteq> []
             \<and> (faults w = [] \<or> hd (faults w) = None) \<longrightarrow>
             fst (toolSendMessage L s args w)
               = errorResult (''instance '' @ [SQ] @ to @ [SQ] @ '' not found''))"
proof -
  have nf: "find (\<lambda>x. inst_ID x = to) (instances w) = None" if "args ''to'' = Some (JString to)" for to
    using assms that by (auto simp: find_None_iff)
  have a: "tr_IsError (fst (toolSendMessage L s args w))
       \<and> messages (snd (toolSendMessage L s args w)) = messages w
       \<and> messages_seq (snd (toolSendMessage L s args w)) = messages_seq w"
  proof (cases "args ''to''")
    case None
    then show ?thesis by (simp add: toolSendMessage_def errorResult_def)
  next
    case (Some v)
    show ?thesis
    proof (cases v)
      case (JString to)
      obtain r w1 where g: "GetInstance to w = (r, w1)" by (cases "GetInstance to w")
      from GetInstance_result [OF g] nf [of to] Some JString
      have r: "r = Inr None \<or> (\<exists>e. r = Inl e)"
        and m: "messages w1 = messages w" "messages_seq w1 = messages_seq w"
        by auto
      show ?thesis using Some JString g r m
        by (auto simp: toolSendMessage_def errorResult_def split: option.splits json.splits)
    qed (use Some in \<open>simp_all add: toolSendMessage_def errorResult_def\<close>)
  qed
  have b: "fst (toolSendMessage L s args w) = errorResult (''instance '' @ [SQ] @ to @ [SQ] @ '' not found'')"
    if "args ''to'' = Some (JString to)" "to \<noteq> []" "args ''content'' = Some (JString content)"
       "content \<noteq> []" "faults w = [] \<or> hd (faults w) = None" for to content
  proof -
    from GetInstance_ok [OF that(5), of to] nf [OF that(1)]
    have "fst (GetInstance to w) = Inr None" by simp
    then show ?thesis using that(1-4)
      by (cases "GetInstance to w") (simp add: toolSendMessage_def)
  qed
  from a b show ?thesis by blast
qed

text \<open>The same call with a registered recipient does create the message.\<close>

lemma send_message_known_recipient:
  assumes "args ''to'' = Some (JString to)" "to \<noteq> []"
    "args ''content'' = Some (JString content)" "content \<noteq> []"
    "faults w = []" "to \<in> inst_ID ` set (instances w)"
  shows "\<not> tr_IsError (fst (toolSendMessage L s args w))
       \<and> (\<exists>m. messages (snd (toolSendMessage L s args w)) = messages w @ [m]
              \<and> msg_ToInstance m = to \<and> msg_FromInstance m = instanceID s
              \<and> msg_Content m = content \<and> msg_ReadAt m = None)"
proof -
  from assms(6) obtain t where "find (\<lambda>x. inst_ID x = to) (instances w) = Some t"
    by (cases "find (\<lambda>x. inst_ID x = to) (instances w)") (auto simp: find_None_iff)
  then show ?thesis using assms(1-5)
    by (simp add: toolSendMessage_def GetInstance_def SendMessage_def time_Now_def
          textResult_def Let_def)
qed

theorem send_message_unknown_recipient_witness:
  "fst (toolSendMessage sample_libs sample_server (send_args ''nonexistent-instance'') instances_world)
     = errorResult (''instance '' @ [SQ] @ ''nonexistent-instance'' @ [SQ] @ '' not found'')
   \<and> messages (snd (toolSendMessage sample_libs sample_server (send_args ''nonexistent-instance'')
                      instances_world)) = []
   \<and> length (messages (snd (toolSendMessage sample_libs sample_server (send_args ''new-instance'')
                      instances_world))) = 1"
proof -
  have h: "\<forall>to. send_args ''nonexistent-instance'' ''to'' = Some (JString to)
              \<longrightarrow> to \<notin> inst_ID ` set (instances instances_world)"
    by (simp add: send_args_def instances_world_def)
  have f: "faults instances_world = []" "messages instances_world = []"
    by (simp_all add: instances_world_def empty_world_def)
  from send_message_unknown_recipient [where args = "send_args ''nonexistent-instance''"
         and w = instances_world and L = sample_libs and s = sample_server] h f
  have a: "fst (toolSendMessage sample_libs sample_server (send_args ''nonexistent-instance'') instances_world)
     = errorResult (''instance '' @ [SQ] @ ''nonexistent-instance'' @ [SQ] @ '' not found'')
   \<and> messages (snd (toolSendMessage sample_libs sample_server (send_args ''nonexistent-instance'')
                      instances_world)) = []"
    by (simp add: send_args_def)
  have "\<exists>m. messages (snd (toolSendMessage sample_libs sample_server (send_args ''new-instance'')
                      instances_world)) = messages instances_world @ [m]"
    using send_message_known_recipient [of "send_args ''new-instance''" "''new-instance''" "''hello!''"
            instances_world sample_libs sample_server] f
    by (auto simp: send_args_def instances_world_def)
  with f have b: "length (messages (snd (toolSendMessage sample_libs sample_server
                      (send_args ''new-instance'') instances_world))) = 1"
    by auto
  from a b show ?thesis by simp
qed


subsection \<open>The request loop\<close>

lemma Run_result:
  "fst (Run L s lines fin out w)
     = (case fin of EOF \<Rightarrow> None | ReadError e \<Rightarrow> Some (''read error: '' @ e))"
proof (induction lines arbitrary: out w)
  case Nil
  show ?case by (cases fin) simp_all
next
  case (Cons line rest)
  show ?case
  proof (cases "decode_Request L line")
    case None
    then show ?thesis using Cons.IH by simp
  next
    case (Some req)
    obtain resps w1 where h: "handleRequest L s req w = (resps, w1)"
      by (cases "handleRequest L s req w")
    with Some show ?thesis using Cons.IH by simp
  qed
qed

lemma Run_append:
  "Run L s (lines @ rest) fin out w
     = (case Run L s lines EOF out w of (err, out1, w1) \<Rightarrow> Run L s rest fin out1 w1)"
proof (induction lines arbitrary: out w)
  case Nil
  show ?case by simp
next
  case (Cons line more)
  show ?case
  proof (cases "decode_Request L line")
    case None
    then show ?thesis using Cons.IH by simp
  next
    case (Some req)
    obtain resps w1 where h: "handleRequest L s req w = (resps, w1)"
      by (cases "handleRequest L s req w")
    with Some show ?thesis using Cons.IH by simp
  qed
qed

lemma handleRequest_unknown_method:
  "req_Method req \<notin> {''initialize'', ''initialized'', ''tools/list'', ''tools/call'', ''ping''} \<Longrightarrow>
     handleRequest L s req w = ([sendError (req_ID req) (- 32601) ''Method not found''], w)"
  by (simp add: handleRequest_def)

text \<open>
  Claim C8. In the loop of \<open>Run\<close>: a line that does not decode is answered by the error
  \<open>-32700\<close> (with a null id) and the loop goes on with the next line; a decoded request
  whose method is none of the five known ones is answered by the error \<open>-32601\<close> under
  the request's id, and the loop goes on; at the end of the input the loop returns no
  error, and on another read error it returns that error, wrapped. Whatever the lines
  are, the result of the loop is decided by how the reading ends alone, and after any
  lines the loop continues with the lines that follow, from the output and the state it
  has reached.
\<close>

theorem request_loop:
  "(decode_Request L line = None \<longrightarrow>
      Run L s (line # rest) fin out w
        = Run L s rest fin (out @ [sendError JNull (- 32700) ''Parse error'']) w)
   \<and> (\<forall>req. decode_Request L line = Some req
         \<and> req_Method req \<notin> {''initialize'', ''initialized'', ''tools/list'', ''tools/call'', ''ping''} \<longrightarrow>
         Run L s (line # rest) fin out w
           = Run L s rest fin (out @ [sendError (req_ID req) (- 32601) ''Method not found'']) w)
   \<and> Run L s [] EOF out w = (None, out, w)
   \<and> Run L s [] (ReadError e) out w = (Some (''read error: '' @ e), out, w)
   \<and> fst (Run L s lines EOF out w) = None
   \<and> fst (Run L s lines (ReadError e) out w) = Some (''read error: '' @ e)
   \<and> Run L s (lines @ rest) fin out w
       = (case Run L s lines EOF out w of (err, out1, w1) \<Rightarrow> Run L s rest fin out1 w1)
   \<and> sendError i code msg
       = \<lparr>resp_JSONRPC = ''2.0'', resp_ID = i, resp_Result = None,
          resp_Error = Some \<lparr>err_Code = code, err_Message = msg\<rparr>\<rparr>"
proof (intro conjI allI impI)
  show "Run L s (lines @ rest) fin out w
       = (case Run L s lines EOF out w of (err, out1, w1) \<Rightarrow> Run L s rest fin out1 w1)"
    by (rule Run_append)
  show "fst (Run L s lines EOF out w) = None"
    by (simp add: Run_result)
  show "fst (Run L s lines (ReadError e) out w) = Some (''read error: '' @ e)"
    by (simp add: Run_result)
next
  fix req
  assume "decode_Request L line = Some req
         \<and> req_Method req \<notin> {''initialize'', ''initialized'', ''tools/list'', ''tools/call'', ''ping''}"
  then show "Run L s (line # rest) fin out w
           = Run L s rest fin (out @ [sendError (req_ID req) (- 32601) ''Method not found'']) w"
    by (simp add: handleRequest_unknown_method)
qed (simp_all add: sendError_def)

theorem request_loop_witness:
  "Run sample_libs sample_server [''garbage'', ''bogus'' @ [NL], ''ping'' @ [NL]] EOF [] empty_world
     = (None,
        [sendError JNull (- 32700) ''Parse error'',
         sendError (JString ''7'') (- 32601) ''Method not found'',
         sendResult JNull EmptyRes],
        empty_world)
   \<and> fst (Run sample_libs sample_server [''garbage''] (ReadError ''closed'') [] empty_world)
       = Some ''read error: closed''"
proof -
  let ?bogus = "\<lparr>req_JSONRPC = ''2.0'', req_ID = JString ''7'', req_Method = ''bogus'', req_Params = []\<rparr>"
  let ?perr = "sendError JNull (- 32700) ''Parse error''"
  have d1: "decode_Request sample_libs ''garbage'' = None"
    by (simp add: sample_libs_def)
  have d2: "decode_Request sample_libs (''bogus'' @ [NL]) = Some ?bogus
         \<and> req_Method ?bogus \<notin> {''initialize'', ''initialized'', ''tools/list'', ''tools/call'', ''ping''}"
    by (simp add: sample_libs_def)
  note t1 = request_loop [where L = sample_libs and s = sample_server and line = "''garbage''"
      and rest = "[''bogus'' @ [NL], ''ping'' @ [NL]]" and fin = EOF and out = "[]" and w = empty_world
      and lines = "[''garbage'']" and e = "''closed''"]
  note t2 = request_loop [where L = sample_libs and s = sample_server and line = "''bogus'' @ [NL]"
      and rest = "[''ping'' @ [NL]]" and fin = EOF and out = "[] @ [?perr]" and w = empty_world]
  have s1: "Run sample_libs sample_server [''garbage'', ''bogus'' @ [NL], ''ping'' @ [NL]] EOF [] empty_world
          = Run sample_libs sample_server [''bogus'' @ [NL], ''ping'' @ [NL]] EOF ([] @ [?perr]) empty_world"
    by (rule conjunct1 [OF t1, THEN mp, OF d1])
  have s2: "Run sample_libs sample_server [''bogus'' @ [NL], ''ping'' @ [NL]] EOF ([] @ [?perr]) empty_world
          = Run sample_libs sample_server [''ping'' @ [NL]] EOF
              (([] @ [?perr]) @ [sendError (req_ID ?bogus) (- 32601) ''Method not found'']) empty_world"
    by (rule conjunct1 [OF conjunct2 [OF t2], THEN spec, THEN mp, OF d2])
  have s3: "Run sample_libs sample_server [''ping'' @ [NL]] EOF out empty_world
          = (None, out @ [sendResult JNull EmptyRes], empty_world)" for out
    by (simp add: sample_libs_def handleRequest_def)
  have s4: "fst (Run sample_libs sample_server [''garbage''] (ReadError ''closed'') [] empty_world)
       = Some (''read error: '' @ ''closed'')"
    by (rule conjunct1 [OF conjunct2 [OF conjunct2 [OF conjunct2 [OF conjunct2 [OF conjunct2 [OF t1]]]]]])
  show ?thesis unfolding s1 s2 s3 using s4 by simp
qed


subsection \<open>Reading messages\<close>



lemma fold_max_append: "fold max (xs @ [y]) (a::int) = max y (fold max xs a)"
  by simp

lemma msg_ID_mark [simp]:
  "msg_ID \<circ> (\<lambda>m. if msg_ID m = j then m\<lparr>msg_ReadAt := t\<rparr> else m) = msg_ID"
  by (auto simp: fun_eq_iff)



lemma time_Now_tables [simp]:
  "messages (snd (time_Now w)) = messages w" "messages_seq (snd (time_Now w)) = messages_seq w"
  "faults (snd (time_Now w)) = faults w"
  by (simp_all add: time_Now_def)
































end
